theory Spec2Isabelle
  imports Complex_Main
begin

section \<open>Python strings\<close>

text \<open>
  A Python \<^verbatim>\<open>str\<close> is a sequence of Unicode code points, so a string is a list of
  numbers. The literals of \<^verbatim>\<open>main.py\<close> are written with \<open>u\<close> where they are ASCII and as
  explicit code points elsewhere (the file stores its emoji and dashes as the characters
  that their UTF-8 bytes give when read as Windows-1252, and those characters are what the
  interpreter sees).
\<close>

type_synonym ustr = "nat list"

definition u :: "string \<Rightarrow> ustr" where
  "u s = map of_char s"

text \<open>\<^verbatim>\<open>w in s\<close> on strings: \<open>w\<close> occurs in \<open>s\<close> as a contiguous run.\<close>

fun startswith :: "ustr \<Rightarrow> ustr \<Rightarrow> bool" where
  "startswith s [] = True"
| "startswith [] (w # ws) = False"
| "startswith (c # cs) (w # ws) = (c = w \<and> startswith cs ws)"

fun py_in :: "ustr \<Rightarrow> ustr \<Rightarrow> bool" where
  "py_in w [] = (w = [])"
| "py_in w (c # cs) = (startswith (c # cs) w \<or> py_in w cs)"

text \<open>
  \<^verbatim>\<open>str.strip()\<close> removes the leading and trailing characters for which
  \<^verbatim>\<open>str.isspace\<close> holds: nine ASCII controls and the space, and nineteen code points
  beyond ASCII.
\<close>

definition isspace :: "nat \<Rightarrow> bool" where
  "isspace c \<longleftrightarrow>
     (0x09 \<le> c \<and> c \<le> 0x0D) \<or> (0x1C \<le> c \<and> c \<le> 0x20) \<or> c = 0x85 \<or> c = 0xA0 \<or>
     c = 0x1680 \<or> (0x2000 \<le> c \<and> c \<le> 0x200A) \<or> c = 0x2028 \<or> c = 0x2029 \<or>
     c = 0x202F \<or> c = 0x205F \<or> c = 0x3000"

definition strip :: "ustr \<Rightarrow> ustr" where
  "strip s = rev (dropWhile isspace (rev (dropWhile isspace s)))"

text \<open>
  \<^verbatim>\<open>str.lower()\<close> maps the string character by character. An ASCII character is
  lowered by the fixed rule \<open>A\<close>..\<open>Z\<close> to \<open>a\<close>..\<open>z\<close>. For the characters beyond ASCII the
  result comes from the Unicode tables of the interpreter, which are no part of this
  program: they are the parameter \<open>U\<close>, which receives the characters before, the
  character and the characters after it (one capital letter, the Greek sigma, is lowered
  by its context) and returns the characters that replace it.
\<close>

type_synonym ucd = "ustr \<Rightarrow> nat \<Rightarrow> ustr \<Rightarrow> ustr"

definition ascii_lower :: "nat \<Rightarrow> nat" where
  "ascii_lower c = (if 0x41 \<le> c \<and> c \<le> 0x5A then c + 0x20 else c)"

fun lower_from :: "ucd \<Rightarrow> ustr \<Rightarrow> ustr \<Rightarrow> ustr" where
  "lower_from U before [] = []"
| "lower_from U before (c # cs) =
     (if c < 0x80 then [ascii_lower c] else U before c cs) @ lower_from U (before @ [c]) cs"

definition lower :: "ucd \<Rightarrow> ustr \<Rightarrow> ustr" where
  "lower U s = lower_from U [] s"

text \<open>Truthiness of an optional string: \<^verbatim>\<open>None\<close> and \<^verbatim>\<open>""\<close> are false.\<close>

fun truthy :: "ustr option \<Rightarrow> bool" where
  "truthy None = False"
| "truthy (Some s) = (s \<noteq> [])"

text \<open>\<^verbatim>\<open>x or ""\<close> for an optional string.\<close>

fun or_empty :: "ustr option \<Rightarrow> ustr" where
  "or_empty None = []"
| "or_empty (Some s) = s"

section \<open>Exceptions and the environment\<close>

text \<open>
  An exception is a value with its class and with what \<^verbatim>\<open>str(e)\<close> gives, which is a
  text or, for a class whose \<^verbatim>\<open>__str__\<close> raises, another exception. The handlers of this
  program tell three kinds of classes apart: \<^verbatim>\<open>ImportError\<close> with its subclasses, the
  other subclasses of \<^verbatim>\<open>Exception\<close>, and the classes that derive from
  \<^verbatim>\<open>BaseException\<close> alone (\<^verbatim>\<open>SystemExit\<close>, \<^verbatim>\<open>KeyboardInterrupt\<close>,
  \<^verbatim>\<open>GeneratorExit\<close>), which \<^verbatim>\<open>except Exception\<close> lets through.
\<close>

datatype exc_class = BaseException | Exception | ImportError

datatype exc = Exc (cls: exc_class) (str_of: "exc + ustr")

fun isinstance :: "exc \<Rightarrow> exc_class \<Rightarrow> bool" where
  "isinstance e BaseException = True"
| "isinstance e Exception = (cls e = Exception \<or> cls e = ImportError)"
| "isinstance e ImportError = (cls e = ImportError)"

text \<open>\<^verbatim>\<open>os.environ\<close>; \<^verbatim>\<open>os.getenv(k)\<close> is the lookup, \<open>None\<close> for a variable not set.\<close>

type_synonym environ = "ustr \<rightharpoonup> ustr"

section \<open>Sentiment classifier\<close>

text \<open>
  The scores are Python floats. They are modelled by the rational numbers that the
  decimal literals and the arithmetic of the source denote; \<^verbatim>\<open>round(x, 4)\<close> rounds
  to the nearest multiple of \<open>1/10000\<close>, a tie to the even one.
\<close>

record SentimentIn =
  text_field :: ustr

datatype label = POSITIVE | NEGATIVE | NEUTRAL

record SentimentOut =
  label :: label
  score :: rat

text \<open>
  The module-level \<^verbatim>\<open>analyzer\<close>: \<open>None\<close> when the import failed at startup, else the
  analyzer, whose \<^verbatim>\<open>polarity_scores\<close> maps a text to a dictionary of floats, or raises.
  The handler has no \<^verbatim>\<open>try\<close>, so what the analyzer raises leaves the handler.
\<close>

type_synonym analyzer = "(ustr \<Rightarrow> exc + (ustr \<rightharpoonup> rat)) option"

definition positives :: "ustr list" where
  "positives =
     [u ''happy'', u ''great'', u ''awesome'', u ''love'', u ''good'',
      [0xF0, 0x178, 0x2DC, 0x160], u '':)'', [0xF0, 0x178, 0x2DC, 0x20AC],
      [0xF0, 0x178, 0x2DC, 0x201E], [0xF0, 0x178, 0x2DC, 0x17D], [0xF0, 0x178, 0x2018]]"

definition negatives :: "ustr list" where
  "negatives =
     [u ''sad'', u ''bad'', u ''terrible'', u ''hate'', u ''angry'',
      [0xF0, 0x178, 0x2DC, 0xA2], u '':('', [0xF0, 0x178, 0x2DC, 0xAD],
      [0xF0, 0x178, 0x2DC, 0xA1], [0xF0, 0x178, 0x2DC, 0x17E], [0xF0, 0x178, 0x2018, 0x17D]]"

text \<open>\<^verbatim>\<open>sum(w in lower for w in words)\<close>: each word that occurs adds one.\<close>

fun count_in :: "ustr list \<Rightarrow> ustr \<Rightarrow> nat" where
  "count_in [] s = 0"
| "count_in (w # ws) s = (if py_in w s then 1 else 0) + count_in ws s"

definition round_half_even :: "rat \<Rightarrow> int" where
  "round_half_even x =
     (let f = \<lfloor>x\<rfloor>; r = x - of_int f
      in if r < 1 / 2 then f else if 1 / 2 < r then f + 1 else if even f then f else f + 1)"

definition py_round4 :: "rat \<Rightarrow> rat" where
  "py_round4 x = of_int (round_half_even (x * 10000)) / 10000"

definition fallback :: "ustr \<Rightarrow> SentimentOut" where
  "fallback lower_text =
     (let p = int (count_in positives lower_text);
          n = int (count_in negatives lower_text)
      in if p > n then \<lparr>label = POSITIVE, score = min 1 (6 / 10 + 1 / 10 * of_int (p - n))\<rparr>
         else if n > p then \<lparr>label = NEGATIVE, score = min 1 (6 / 10 + 1 / 10 * of_int (n - p))\<rparr>
         else \<lparr>label = NEUTRAL, score = 1 / 2\<rparr>)"

definition lexicon :: "(ustr \<rightharpoonup> rat) \<Rightarrow> SentimentOut" where
  "lexicon vs =
     (let compound = (case vs (u ''compound'') of None \<Rightarrow> 0 | Some c \<Rightarrow> c);
          l = (if compound \<ge> 2 / 10 then POSITIVE
               else if compound \<le> - (2 / 10) then NEGATIVE
               else NEUTRAL)
      in \<lparr>label = l, score = py_round4 compound\<rparr>)"

definition analyze_sentiment :: "analyzer \<Rightarrow> ucd \<Rightarrow> SentimentIn \<Rightarrow> exc + SentimentOut" where
  "analyze_sentiment analyzer U payload =
     (let text = strip (text_field payload)
      in if text = [] then Inr \<lparr>label = NEUTRAL, score = 0\<rparr>
         else case analyzer of
                None \<Rightarrow> Inr (fallback (lower U text))
              | Some a \<Rightarrow> (case a text of Inl e \<Rightarrow> Inl e | Inr vs \<Rightarrow> Inr (lexicon vs)))"

section \<open>Vibe note generator\<close>

record VibeIn =
  mood :: ustr
  weather_main :: "ustr option"
  weather_desc :: "ustr option"

record VibeOut =
  note_field :: ustr

text \<open>\<^verbatim>\<open>any(k in s for k in ks)\<close>.\<close>

definition any_in :: "ustr list \<Rightarrow> ustr \<Rightarrow> bool" where
  "any_in ks s = list_ex (\<lambda>k. py_in k s) ks"

text \<open>The six weather phrases and the four mood phrases, as the source spells them.\<close>

definition rain_phrase :: ustr where
  "rain_phrase = u ''the rhythm of the rain sets a calm tempo''"

definition cloud_phrase :: ustr where
  "cloud_phrase = u ''soft clouds invite reflection and slow moments''"

definition clear_phrase :: ustr where
  "clear_phrase = u ''clear skies spark light and optimism''"

definition snow_phrase :: ustr where
  "snow_phrase = u ''snow hushes the world into a gentle hush''"

definition storm_phrase :: ustr where
  "storm_phrase = u ''storms rumble, but you carry quiet courage''"

definition generic_phrase :: ustr where
  "generic_phrase = u ''the air feels open to possibility''"

definition happy_phrase :: ustr where
  "happy_phrase = u ''your energy feels bright and contagious''"

definition sad_phrase :: ustr where
  "sad_phrase =
     u ''be gentle with yourself'' @ [0xE2, 0x20AC, 0x201D] @ u ''small steps are still progress''"

definition angry_phrase :: ustr where
  "angry_phrase = u ''take a breath; let movement help shift the heat''"

definition steady_phrase :: ustr where
  "steady_phrase =
     u ''you'' @ [0xE2, 0x20AC, 0x2122] @ u ''re steady and present'' @ [0xE2, 0x20AC, 0x201D] @
     u ''keep following the simple good''"

definition happy_keys :: "ustr list" where
  "happy_keys =
     [u ''happy'', u ''great'', u ''good'', u ''joy'', u ''excited'',
      [0xF0, 0x178, 0x2DC, 0x160], [0xF0, 0x178, 0x2DC, 0x20AC], [0xF0, 0x178, 0x2DC, 0x201E],
      [0xF0, 0x178, 0x2DC, 0x17D], u '':)'']"

definition sad_keys :: "ustr list" where
  "sad_keys =
     [u ''sad'', u ''down'', u ''tired'', u ''low'', u ''anxious'',
      [0xF0, 0x178, 0x2DC, 0xA2], [0xF0, 0x178, 0x2DC, 0xAD], u '':('',
      [0xF0, 0x178, 0x2DC, 0x17E]]"

definition angry_keys :: "ustr list" where
  "angry_keys = [u ''angry'', u ''frustrated'', u ''mad'', [0xF0, 0x178, 0x2DC, 0xA1]]"

definition weather_phrase :: "ustr \<Rightarrow> ustr \<Rightarrow> ustr" where
  "weather_phrase wm wd =
     (if py_in (u ''rain'') wm \<or> py_in (u ''drizzle'') wm then rain_phrase
      else if py_in (u ''cloud'') wm \<or> py_in (u ''overcast'') wd then cloud_phrase
      else if py_in (u ''clear'') wm then clear_phrase
      else if py_in (u ''snow'') wm then snow_phrase
      else if py_in (u ''storm'') wm \<or> py_in (u ''thunder'') wm then storm_phrase
      else generic_phrase)"

definition mood_phrase :: "ustr \<Rightarrow> ustr" where
  "mood_phrase mood_lower =
     (if any_in happy_keys mood_lower then happy_phrase
      else if any_in sad_keys mood_lower then sad_phrase
      else if any_in angry_keys mood_lower then angry_phrase
      else steady_phrase)"

definition vibe_note :: "ucd \<Rightarrow> VibeIn \<Rightarrow> VibeOut" where
  "vibe_note U payload =
     (let mood = strip (mood payload);
          wm = lower U (or_empty (weather_main payload));
          wd = lower U (or_empty (weather_desc payload));
          base = u ''Today'';
          mood_lower = lower U mood
      in \<lparr>note_field =
            base @ u '', '' @ weather_phrase wm wd @ u ''; '' @ mood_phrase mood_lower @ u ''.''\<rparr>)"

section \<open>Weather adapter\<close>

text \<open>The value that \<^verbatim>\<open>r.json()\<close> returns; a dictionary is a list of its items.\<close>

datatype json =
  JNull | JBool bool | JInt int | JFloat rat | JStr ustr | JArr "json list" |
  JObj "(ustr \<times> json) list"

fun type_name :: "json \<Rightarrow> ustr" where
  "type_name JNull = u ''NoneType''"
| "type_name (JBool b) = u ''bool''"
| "type_name (JInt i) = u ''int''"
| "type_name (JFloat x) = u ''float''"
| "type_name (JStr s) = u ''str''"
| "type_name (JArr xs) = u ''list''"
| "type_name (JObj kvs) = u ''dict''"

fun json_truthy :: "json \<Rightarrow> bool" where
  "json_truthy JNull = False"
| "json_truthy (JBool b) = b"
| "json_truthy (JInt i) = (i \<noteq> 0)"
| "json_truthy (JFloat x) = (x \<noteq> 0)"
| "json_truthy (JStr s) = (s \<noteq> [])"
| "json_truthy (JArr xs) = (xs \<noteq> [])"
| "json_truthy (JObj kvs) = (kvs \<noteq> [])"

text \<open>\<^verbatim>\<open>x.get(k, d)\<close>: only a dictionary has the method.\<close>

fun get :: "json \<Rightarrow> ustr \<Rightarrow> json \<Rightarrow> exc + json" where
  "get (JObj kvs) k d = Inr (case map_of kvs k of None \<Rightarrow> d | Some v \<Rightarrow> v)"
| "get x k d =
     Inl (Exc Exception
            (Inr ([0x27] @ type_name x @ [0x27] @ u '' object has no attribute '' @
                  [0x27] @ u ''get'' @ [0x27])))"

text \<open>\<^verbatim>\<open>x[0]\<close>. The keys of a dictionary read from JSON are strings, never \<open>0\<close>.\<close>

fun index0 :: "json \<Rightarrow> exc + json" where
  "index0 (JArr []) = Inl (Exc Exception (Inr (u ''list index out of range'')))"
| "index0 (JArr (x # xs)) = Inr x"
| "index0 (JStr []) = Inl (Exc Exception (Inr (u ''string index out of range'')))"
| "index0 (JStr (c # cs)) = Inr (JStr [c])"
| "index0 (JObj kvs) = Inl (Exc Exception (Inr (u ''0'')))"
| "index0 x =
     Inl (Exc Exception
            (Inr ([0x27] @ type_name x @ [0x27] @ u '' object is not subscriptable'')))"

text \<open>\<^verbatim>\<open>data.get(k1, {}).get(k2)\<close>.\<close>

definition get2 :: "json \<Rightarrow> ustr \<Rightarrow> ustr \<Rightarrow> exc + json" where
  "get2 data k1 k2 =
     (case get data k1 (JObj []) of Inl e \<Rightarrow> Inl e | Inr x \<Rightarrow> get x k2 JNull)"

text \<open>\<^verbatim>\<open>(data.get("weather") or [{}])[0].get(k)\<close>.\<close>

definition weather0 :: "json \<Rightarrow> ustr \<Rightarrow> exc + json" where
  "weather0 data k =
     (case get data (u ''weather'') JNull of
        Inl e \<Rightarrow> Inl e
      | Inr w \<Rightarrow>
          (case index0 (if json_truthy w then w else JArr [JObj []]) of
             Inl e \<Rightarrow> Inl e
           | Inr x \<Rightarrow> get x k JNull))"

text \<open>
  A dictionary display evaluates its values from left to right; the first one that
  raises ends the evaluation.
\<close>

fun display :: "(ustr \<times> (exc + json)) list \<Rightarrow> exc + (ustr \<times> json) list" where
  "display [] = Inr []"
| "display ((k, Inl e) # rest) = Inl e"
| "display ((k, Inr v) # rest) =
     (case display rest of Inl e \<Rightarrow> Inl e | Inr kvs \<Rightarrow> Inr ((k, v) # kvs))"

definition normalize :: "json \<Rightarrow> exc + (ustr \<times> json) list" where
  "normalize data =
     display
       [(u ''city'', get data (u ''name'') JNull),
        (u ''country'', get2 data (u ''sys'') (u ''country'')),
        (u ''temp'', get2 data (u ''main'') (u ''temp'')),
        (u ''feels_like'', get2 data (u ''main'') (u ''feels_like'')),
        (u ''humidity'', get2 data (u ''main'') (u ''humidity'')),
        (u ''wind'', get2 data (u ''wind'') (u ''speed'')),
        (u ''weather_main'', weather0 data (u ''main'')),
        (u ''weather_desc'', weather0 data (u ''description'')),
        (u ''icon'', weather0 data (u ''icon''))]"

text \<open>
  The network is a parameter: \<^verbatim>\<open>requests.get(url, params=..., timeout=...)\<close> either
  raises or returns a response, whose \<^verbatim>\<open>json()\<close> either raises or returns a value.
  An adapter call returns its outcome together with the list of the requests it sent.
\<close>

record response =
  status_code :: int
  text_attr :: ustr
  json_result :: "exc + json"

record request =
  url :: ustr
  params :: "(ustr \<times> ustr) list"
  timeout :: nat

type_synonym network = "request \<Rightarrow> exc + response"

datatype HTTPException = HTTPException (status: int) (detail: ustr)

text \<open>
  What leaves the adapter when it raises: the HTTP exception that it builds, or an
  exception that its handlers do not turn into one.
\<close>

datatype raised = Http HTTPException | Uncaught exc

text \<open>
  The handlers of the \<^verbatim>\<open>try\<close>, for an exception of the body that is not an HTTP
  exception: \<^verbatim>\<open>except Exception as e\<close> raises the HTTP exception with status 500 and
  the detail \<^verbatim>\<open>str(e)\<close>; what \<^verbatim>\<open>str(e)\<close> raises, and an exception that is no
  \<^verbatim>\<open>Exception\<close>, leave the adapter as they are.
\<close>

definition on_exception :: "exc \<Rightarrow> raised" where
  "on_exception e =
     (if isinstance e Exception then
        (case str_of e of Inr s \<Rightarrow> Http (HTTPException 500 s) | Inl e' \<Rightarrow> Uncaught e')
      else Uncaught e)"

definition fetch :: "network \<Rightarrow> request \<Rightarrow> raised + (ustr \<times> json) list" where
  "fetch net req =
     (case net req of
        Inl e \<Rightarrow> Inl (on_exception e)
      | Inr r \<Rightarrow>
          if status_code r \<noteq> 200 then Inl (Http (HTTPException (status_code r) (text_attr r)))
          else (case json_result r of
                  Inl e \<Rightarrow> Inl (on_exception e)
                | Inr data \<Rightarrow>
                    (case normalize data of
                       Inl e \<Rightarrow> Inl (on_exception e)
                     | Inr result \<Rightarrow> Inr result)))"

definition get_weather ::
  "environ \<Rightarrow> network \<Rightarrow> ustr \<Rightarrow> ustr option \<Rightarrow>
   (raised + (ustr \<times> json) list) \<times> request list" where
  "get_weather env net city api_key =
     (let key = (if truthy api_key then api_key else env (u ''OPENWEATHER_API_KEY''))
      in case key of
           None \<Rightarrow>
             (Inl (Http (HTTPException 500
                (u ''OPENWEATHER_API_KEY not set on server; provide ?api_key=...''))), [])
         | Some k \<Rightarrow>
             if k = [] then
               (Inl (Http (HTTPException 500
                  (u ''OPENWEATHER_API_KEY not set on server; provide ?api_key=...''))), [])
             else
               (let req = \<lparr>url = u ''https://api.openweathermap.org/data/2.5/weather'',
                           params = [(u ''q'', city), (u ''appid'', k), (u ''units'', u ''metric'')],
                           timeout = 12\<rparr>
                in (fetch net req, [req])))"

section \<open>Diagnostics reporter\<close>

text \<open>
  The probes are parameters: what \<^verbatim>\<open>from database import db\<close> gives (an exception,
  \<^verbatim>\<open>None\<close> or a handle), what reading the \<^verbatim>\<open>name\<close> attribute of the handle gives
  (\<^verbatim>\<open>hasattr\<close> passes on every exception but \<^verbatim>\<open>AttributeError\<close>, which means that
  the attribute is missing), and what \<^verbatim>\<open>list_collection_names()\<close> gives.
\<close>

record db_handle =
  name_attr :: "exc + ustr option"
  list_collection_names :: "exc + ustr list"

type_synonym db_import = "exc + db_handle option"

record report =
  backend :: ustr
  database :: ustr
  database_url :: "ustr option"
  database_name :: "ustr option"
  connection_status :: ustr
  collections :: "ustr list"

definition check_mark :: ustr where
  "check_mark = [0xE2, 0x153, 0x2026]"

definition cross_mark :: ustr where
  "cross_mark = [0xE2, 0x152]"

definition warning_mark :: ustr where
  "warning_mark = [0xE2, 0x161, 0xA0, 0xEF, 0xB8]"

definition response0 :: report where
  "response0 =
     \<lparr>backend = check_mark @ u '' Running'',
      database = cross_mark @ u '' Not Available'',
      database_url = None,
      database_name = None,
      connection_status = u ''Not Connected'',
      collections = []\<rparr>"

text \<open>
  A block that may raise part way returns the exception, if any, with the report as the
  assignments before it left it. The inner \<^verbatim>\<open>try\<close> lists the collections; its handler
  formats \<^verbatim>\<open>str(e)\<close>, and what that raises leaves the handler.
\<close>

definition list_probe :: "db_handle \<Rightarrow> report \<Rightarrow> exc option \<times> report" where
  "list_probe db r =
     (case list_collection_names db of
        Inr cs \<Rightarrow>
          (None, r\<lparr>collections := take 10 cs,
                   database := check_mark @ u '' Connected & Working''\<rparr>)
      | Inl e \<Rightarrow>
          if isinstance e Exception then
            (case str_of e of
               Inr s \<Rightarrow>
                 (None, r\<lparr>database := warning_mark @ u ''  Connected but Error: '' @ take 50 s\<rparr>)
             | Inl e' \<Rightarrow> (Some e', r))
          else (Some e, r))"

definition db_probe :: "db_import \<Rightarrow> report \<Rightarrow> exc option \<times> report" where
  "db_probe imp r =
     (case imp of
        Inl e \<Rightarrow> (Some e, r)
      | Inr None \<Rightarrow>
          (None, r\<lparr>database := warning_mark @ u ''  Available but not initialized''\<rparr>)
      | Inr (Some db) \<Rightarrow>
          (let r1 = r\<lparr>database := check_mark @ u '' Available'',
                       database_url := Some (check_mark @ u '' Configured'')\<rparr>
           in case name_attr db of
                Inl e \<Rightarrow> (Some e, r1)
              | Inr nm \<Rightarrow>
                  list_probe db
                    (r1\<lparr>database_name :=
                           Some (case nm of Some v \<Rightarrow> v | None \<Rightarrow> check_mark @ u '' Connected''),
                         connection_status := u ''Connected''\<rparr>)))"

definition env_check :: "environ \<Rightarrow> report \<Rightarrow> report" where
  "env_check env r =
     r\<lparr>database_url :=
         Some (if truthy (env (u ''DATABASE_URL'')) then check_mark @ u '' Set''
               else cross_mark @ u '' Not Set''),
       database_name :=
         Some (if truthy (env (u ''DATABASE_NAME'')) then check_mark @ u '' Set''
               else cross_mark @ u '' Not Set'')\<rparr>"

definition test_database :: "db_import \<Rightarrow> environ \<Rightarrow> exc + report" where
  "test_database imp env =
     (case db_probe imp response0 of
        (None, r) \<Rightarrow> Inr (env_check env r)
      | (Some e, r) \<Rightarrow>
          if isinstance e ImportError then
            Inr (env_check env
                   (r\<lparr>database := cross_mark @
                        u '' Database module not found (run enable-database first)''\<rparr>))
          else if isinstance e Exception then
            (case str_of e of
               Inr s \<Rightarrow> Inr (env_check env (r\<lparr>database := cross_mark @ u '' Error: '' @ take 50 s\<rparr>))
             | Inl e' \<Rightarrow> Inl e')
          else Inl e)"

section \<open>Notions of the specification\<close>

text \<open>
  A literal substring match: \<open>w\<close> occurs in \<open>s\<close> when \<open>s\<close> is some text, then \<open>w\<close>, then
  some text. The count of a keyword set in a text is the number of its keywords that
  occur in the text.
\<close>

definition occurs :: "ustr \<Rightarrow> ustr \<Rightarrow> bool" where
  "occurs w s \<longleftrightarrow> (\<exists>a b. s = a @ w @ b)"

definition matches :: "ustr list \<Rightarrow> ustr \<Rightarrow> nat" where
  "matches ws s = card {w \<in> set ws. occurs w s}"

text \<open>
  The other reading of a count: the number of places of the text where a keyword of the
  set starts.
\<close>

fun occurrences :: "ustr \<Rightarrow> ustr \<Rightarrow> nat" where
  "occurrences w [] = (if w = [] then 1 else 0)"
| "occurrences w (c # cs) = (if startswith (c # cs) w then 1 else 0) + occurrences w cs"

definition total_occurrences :: "ustr list \<Rightarrow> ustr \<Rightarrow> nat" where
  "total_occurrences ws s = sum_list (map (\<lambda>w. occurrences w s) ws)"




text \<open>Concrete inputs for the examples below.\<close>

definition identity_table :: ucd where
  "identity_table before c after = [c]"

definition failing_analyzer :: "ustr \<Rightarrow> exc + (ustr \<rightharpoonup> rat)" where
  "failing_analyzer t = Inl (Exc Exception (Inr (u ''analyzer failed'')))"



text \<open>\<^verbatim>\<open>s.endswith(w)\<close>.\<close>

definition endswith :: "ustr \<Rightarrow> ustr \<Rightarrow> bool" where
  "endswith s w \<longleftrightarrow> startswith (rev s) (rev w)"

text \<open>
  The template of a vibe note and the sentences that it gives for the six weather
  phrases and the four mood phrases.
\<close>

definition template :: "ustr \<Rightarrow> ustr \<Rightarrow> ustr" where
  "template w m = u ''Today, '' @ w @ u ''; '' @ m @ u ''.''"

definition weather_phrases :: "ustr list" where
  "weather_phrases =
     [rain_phrase, cloud_phrase, clear_phrase, snow_phrase, storm_phrase, generic_phrase]"

definition mood_phrases :: "ustr list" where
  "mood_phrases = [happy_phrase, sad_phrase, angry_phrase, steady_phrase]"

definition sentences :: "ustr list" where
  "sentences = concat (map (\<lambda>w. map (template w) mood_phrases) weather_phrases)"

text \<open>
  The exceptions that the probes of the diagnostics raise in a run: that of the import,
  or else that of the \<^verbatim>\<open>name\<close> attribute, or else that of the listing (a probe is
  not reached once an earlier one has raised). An exception is ordinary when it is an
  \<^verbatim>\<open>Exception\<close> and its \<^verbatim>\<open>str\<close> returns a text, \<open>text_of\<close> it.
\<close>

fun raised_by_probes :: "db_import \<Rightarrow> exc list" where
  "raised_by_probes (Inl e) = [e]"
| "raised_by_probes (Inr None) = []"
| "raised_by_probes (Inr (Some db)) =
     (case name_attr db of
        Inl e \<Rightarrow> [e]
      | Inr nm \<Rightarrow> (case list_collection_names db of Inl e \<Rightarrow> [e] | Inr cs \<Rightarrow> []))"

definition ordinary :: "exc \<Rightarrow> bool" where
  "ordinary e \<longleftrightarrow> isinstance e Exception \<and> (case str_of e of Inl e' \<Rightarrow> False | Inr s \<Rightarrow> True)"

definition text_of :: "exc \<Rightarrow> ustr" where
  "text_of e = (case str_of e of Inl e' \<Rightarrow> [] | Inr s \<Rightarrow> s)"

text \<open>A field of the report that an operation returned, if it returned one.\<close>

fun returned :: "(report \<Rightarrow> 'a) \<Rightarrow> exc + report \<Rightarrow> 'a option" where
  "returned f (Inl e) = None"
| "returned f (Inr r) = Some (f r)"

text \<open>More concrete inputs: environments, a network, probe outcomes.\<close>

definition no_variables :: environ where
  "no_variables = Map.empty"

definition blank_url :: environ where
  "blank_url = [u ''DATABASE_URL'' \<mapsto> []]"

definition filled_url :: environ where
  "filled_url = [u ''DATABASE_URL'' \<mapsto> u ''mongodb://localhost'']"

definition offline :: network where
  "offline req = Inl (Exc Exception (Inr (u ''connection refused'')))"

definition missing_module :: db_import where
  "missing_module = Inl (Exc ImportError (Inr (u ''No module named database'')))"

definition broken_listing :: db_import where
  "broken_listing =
     Inr (Some \<lparr>name_attr = Inr (Some (u ''app'')),
                list_collection_names =
                  Inl (Exc Exception (Inr (u ''server selection timed out'')))\<rparr>)"

definition exiting_module :: db_import where
  "exiting_module = Inl (Exc BaseException (Inr (u ''1'')))"

definition unprintable_failure :: db_import where
  "unprintable_failure =
     Inl (Exc Exception (Inl (Exc Exception (Inr (u ''__str__ returned non-string'')))))"

section \<open>Strings: the operations meet their descriptions\<close>

lemma startswith_iff: "startswith s w \<longleftrightarrow> (\<exists>b. s = w @ b)"
  by (induction s w rule: startswith.induct) auto

lemma py_in_occurs: "py_in w s \<longleftrightarrow> occurs w s"
proof (induction s)
  case Nil
  show ?case by (auto simp: occurs_def)
next
  case (Cons c cs)
  have "occurs w (c # cs) \<longleftrightarrow> (\<exists>b. c # cs = w @ b) \<or> occurs w cs"
    unfolding occurs_def
  proof
    assume "\<exists>a b. c # cs = a @ w @ b"
    then obtain a b where ab: "c # cs = a @ w @ b" by blast
    show "(\<exists>b. c # cs = w @ b) \<or> (\<exists>a b. cs = a @ w @ b)"
    proof (cases a)
      case Nil
      with ab show ?thesis by auto
    next
      case (Cons x a')
      with ab have "cs = a' @ w @ b" by simp
      then show ?thesis by blast
    qed
  next
    assume "(\<exists>b. c # cs = w @ b) \<or> (\<exists>a b. cs = a @ w @ b)"
    then show "\<exists>a b. c # cs = a @ w @ b"
    proof
      assume "\<exists>b. c # cs = w @ b"
      then obtain b where "c # cs = [] @ w @ b" by auto
      then show ?thesis by blast
    next
      assume "\<exists>a b. cs = a @ w @ b"
      then obtain a b where "c # cs = (c # a) @ w @ b" by auto
      then show ?thesis by blast
    qed
  qed
  with Cons show ?case by (simp add: startswith_iff)
qed

lemma strip_empty_iff: "strip s = [] \<longleftrightarrow> (\<forall>c \<in> set s. isspace c)"
proof
  assume "strip s = []"
  then have a: "\<forall>c \<in> set (dropWhile isspace s). isspace c"
    by (simp add: strip_def)
  have "dropWhile isspace s = []"
  proof (rule ccontr)
    assume ne: "dropWhile isspace s \<noteq> []"
    then have "\<not> isspace (hd (dropWhile isspace s))" by (rule hd_dropWhile)
    moreover have "hd (dropWhile isspace s) \<in> set (dropWhile isspace s)"
      using ne by (rule hd_in_set)
    ultimately show False using a by blast
  qed
  then show "\<forall>c \<in> set s. isspace c" by simp
next
  assume "\<forall>c \<in> set s. isspace c"
  then show "strip s = []" by (auto simp: strip_def dest: set_dropWhileD)
qed

section \<open>Sentiment classifier: the fallback path\<close>

lemma count_in_matches: "distinct ws \<Longrightarrow> count_in ws s = matches ws s"
proof (induction ws)
  case Nil
  show ?case by (simp add: matches_def)
next
  case (Cons w ws)
  then have IH: "count_in ws s = card {x \<in> set ws. occurs x s}" and nin: "w \<notin> set ws"
    by (simp_all add: matches_def)
  have fin: "finite {x \<in> set ws. occurs x s}" by simp
  show ?case
  proof (cases "occurs w s")
    case True
    then have "{x \<in> set (w # ws). occurs x s} = insert w {x \<in> set ws. occurs x s}" by auto
    moreover have "w \<notin> {x \<in> set ws. occurs x s}" using nin by simp
    ultimately show ?thesis using True IH fin by (simp add: matches_def py_in_occurs)
  next
    case False
    then have "{x \<in> set (w # ws). occurs x s} = {x \<in> set ws. occurs x s}" by auto
    then show ?thesis using False IH by (simp add: matches_def py_in_occurs)
  qed
qed

lemma distinct_positives: "distinct positives"
  by (simp add: positives_def u_def)

lemma distinct_negatives: "distinct negatives"
  by (simp add: negatives_def u_def)

lemma fallback_matches:
  "fallback s =
     (let p = int (matches positives s); n = int (matches negatives s)
      in if p > n then \<lparr>label = POSITIVE, score = min 1 (6 / 10 + 1 / 10 * of_int (p - n))\<rparr>
         else if n > p then \<lparr>label = NEGATIVE, score = min 1 (6 / 10 + 1 / 10 * of_int (n - p))\<rparr>
         else \<lparr>label = NEUTRAL, score = 1 / 2\<rparr>)"
  by (simp only: fallback_def count_in_matches [OF distinct_positives]
        count_in_matches [OF distinct_negatives])

lemma happy_and_great:
  "analyze_sentiment None U \<lparr>text_field = u ''I am so happy and great''\<rparr> =
     Inr \<lparr>label = POSITIVE, score = 8 / 10\<rparr>"
  by (simp add: analyze_sentiment_def strip_def isspace_def u_def lower_def ascii_lower_def
        fallback_def positives_def negatives_def Let_def)

text \<open>
  Every emoji entry of the keyword lists holds the capital letter \<open>0x178\<close>. A lowercase
  table that never yields this letter (Python maps it to \<open>0xFF\<close> and maps nothing to
  it) leaves it out of every lowercased text, so such an entry never matches.
\<close>

lemma lower_from_chars:
  "c \<in> set (lower_from U before s) \<Longrightarrow> c < 0x80 \<or> (\<exists>b d a. c \<in> set (U b d a))"
proof (induction s arbitrary: before)
  case Nil
  then show ?case by simp
next
  case (Cons x xs)
  then show ?case
    by (auto simp: ascii_lower_def split: if_splits)
qed

lemma capital_never_matches:
  assumes "\<forall>b d a. 0x178 \<notin> set (U b d a)" and "0x178 \<in> set w"
  shows "\<not> occurs w (lower U s)"
proof
  assume "occurs w (lower U s)"
  then have "set w \<subseteq> set (lower_from U [] s)"
    by (auto simp: occurs_def lower_def)
  with assms(2) have "0x178 \<in> set (lower_from U [] s)" by blast
  from lower_from_chars [OF this] assms(1) show False by simp
qed

lemma lower_so_sad: "lower identity_table (strip (u '' so SAD '')) = u ''so sad''"
  by (simp add: strip_def isspace_def u_def lower_def ascii_lower_def)

lemma strip_so_sad: "strip (u '' so SAD '') \<noteq> []"
  by (simp add: strip_def isspace_def u_def)

lemma matches_so_sad:
  "matches positives (u ''so sad'') = 0" "matches negatives (u ''so sad'') = 1"
proof -
  have "count_in positives (u ''so sad'') = 0"
    by (simp add: positives_def u_def)
  then show "matches positives (u ''so sad'') = 0"
    by (simp only: count_in_matches [OF distinct_positives])
  have "count_in negatives (u ''so sad'') = 1"
    by (simp add: negatives_def u_def)
  then show "matches negatives (u ''so sad'') = 1"
    by (simp only: count_in_matches [OF distinct_negatives])
qed

lemma lower_happy_but_sad:
  "lower identity_table (strip (u ''happy but sad'')) = u ''happy but sad''"
  by (simp add: strip_def isspace_def u_def lower_def ascii_lower_def)

lemma strip_happy_but_sad: "strip (u ''happy but sad'') \<noteq> []"
  by (simp add: strip_def isspace_def u_def)

lemma matches_happy_but_sad:
  "matches positives (u ''happy but sad'') = 1" "matches negatives (u ''happy but sad'') = 1"
proof -
  have "count_in positives (u ''happy but sad'') = 1"
    by (simp add: positives_def u_def)
  then show "matches positives (u ''happy but sad'') = 1"
    by (simp only: count_in_matches [OF distinct_positives])
  have "count_in negatives (u ''happy but sad'') = 1"
    by (simp add: negatives_def u_def)
  then show "matches negatives (u ''happy but sad'') = 1"
    by (simp only: count_in_matches [OF distinct_negatives])
qed

text \<open>
  Claim C1, as stated: with no analyzer, \<open>p\<close> and \<open>n\<close> are the counts of the occurrences
  of the positive and of the negative keywords in the lowercased text, and the label and
  the score follow from them. The classifier does not count occurrences: a keyword that
  occurs several times adds one. In "happy happy happy" a positive keyword occurs three
  times and no negative one, for which the rule of the claim gives the score
  \<open>min(1.0, 0.6 + 0.1 * 3) = 0.9\<close>; the classifier returns \<open>0.7\<close>.
\<close>

theorem repeated_keyword_counterexample:
  "total_occurrences positives (lower identity_table (strip (u ''happy happy happy''))) = 3 \<and>
   total_occurrences negatives (lower identity_table (strip (u ''happy happy happy''))) = 0 \<and>
   analyze_sentiment None identity_table \<lparr>text_field = u ''happy happy happy''\<rparr> =
     Inr \<lparr>label = POSITIVE, score = 7 / 10\<rparr> \<and>
   min 1 (6 / 10 + 1 / 10 * of_int (3 - 0)) = (9 / 10 :: rat)"
  by (simp add: analyze_sentiment_def strip_def isspace_def u_def lower_def ascii_lower_def
        fallback_def positives_def negatives_def total_occurrences_def Let_def)

text \<open>
  Claim C1, amended. With no analyzer, a text that is not empty after trimming is
  classified by the numbers \<open>p\<close> and \<open>n\<close> of the positive and of the negative keywords
  that occur, as literal substrings, in the lowercased text, each keyword counting once
  however often it occurs: \<open>POSITIVE\<close> with score \<open>min(1.0, 0.6 + 0.1 * (p - n))\<close> when
  \<open>p > n\<close>, \<open>NEGATIVE\<close> with score \<open>min(1.0, 0.6 + 0.1 * (n - p))\<close> when \<open>n > p\<close>,
  \<open>NEUTRAL\<close> with score \<open>0.5\<close> when they are equal; the text "I am so happy and great"
  gets \<open>POSITIVE\<close> with score \<open>0.8\<close>.
\<close>

theorem fallback_counts_keywords:
  "(strip (text_field payload) \<noteq> [] \<longrightarrow>
      analyze_sentiment None U payload =
        Inr (let low = lower U (strip (text_field payload));
                 p = int (matches positives low);
                 n = int (matches negatives low)
             in if p > n then \<lparr>label = POSITIVE, score = min 1 (6 / 10 + 1 / 10 * of_int (p - n))\<rparr>
                else if n > p then \<lparr>label = NEGATIVE, score = min 1 (6 / 10 + 1 / 10 * of_int (n - p))\<rparr>
                else \<lparr>label = NEUTRAL, score = 1 / 2\<rparr>)) \<and>
   analyze_sentiment None U \<lparr>text_field = u ''I am so happy and great''\<rparr> =
     Inr \<lparr>label = POSITIVE, score = 8 / 10\<rparr>"
proof (intro conjI impI)
  assume "strip (text_field payload) \<noteq> []"
  then show "analyze_sentiment None U payload =
        Inr (let low = lower U (strip (text_field payload));
                 p = int (matches positives low);
                 n = int (matches negatives low)
             in if p > n then \<lparr>label = POSITIVE, score = min 1 (6 / 10 + 1 / 10 * of_int (p - n))\<rparr>
                else if n > p then \<lparr>label = NEGATIVE, score = min 1 (6 / 10 + 1 / 10 * of_int (n - p))\<rparr>
                else \<lparr>label = NEUTRAL, score = 1 / 2\<rparr>)"
    by (simp add: analyze_sentiment_def fallback_matches Let_def)
next
  show "analyze_sentiment None U \<lparr>text_field = u ''I am so happy and great''\<rparr> =
     Inr \<lparr>label = POSITIVE, score = 8 / 10\<rparr>"
    by (rule happy_and_great)
qed

theorem fallback_counts_keywords_witness:
  "strip (text_field \<lparr>text_field = u '' so SAD ''\<rparr>) \<noteq> [] \<and>
   analyze_sentiment None identity_table \<lparr>text_field = u '' so SAD ''\<rparr> =
     Inr \<lparr>label = NEGATIVE, score = 7 / 10\<rparr>"
  using fallback_counts_keywords [of "\<lparr>text_field = u '' so SAD ''\<rparr>" identity_table]
  by (simp add: strip_so_sad lower_so_sad matches_so_sad)

text \<open>
  Claim C5, as stated: on the fallback path, for a text that is not empty after
  trimming, the score is \<open>0.5\<close> whenever the positive count \<open>p\<close> equals the negative
  count \<open>n\<close>, the counts being those of the occurrences of the keywords. In
  "happy happy sad bad" the positive keywords occur twice and the negative keywords
  occur twice, so the counts are equal; the classifier, for which "happy" adds one,
  returns \<open>NEGATIVE\<close> with the score \<open>0.7\<close>.
\<close>

theorem equal_occurrences_counterexample:
  "strip (u ''happy happy sad bad'') \<noteq> [] \<and>
   total_occurrences positives (lower identity_table (strip (u ''happy happy sad bad''))) = 2 \<and>
   total_occurrences negatives (lower identity_table (strip (u ''happy happy sad bad''))) = 2 \<and>
   analyze_sentiment None identity_table \<lparr>text_field = u ''happy happy sad bad''\<rparr> =
     Inr \<lparr>label = NEGATIVE, score = 7 / 10\<rparr> \<and>
   (7 / 10 :: rat) \<noteq> 1 / 2"
  by (simp add: analyze_sentiment_def strip_def isspace_def u_def lower_def ascii_lower_def
        fallback_def positives_def negatives_def total_occurrences_def Let_def)

text \<open>
  Claim C5, amended. On the fallback path, for a text that is not empty after trimming,
  the score lies in \<open>[0, 1]\<close>, whether the counts differ or not, and it is \<open>0.5\<close>
  when the number \<open>p\<close> of the positive keywords that occur in the lowercased text equals
  the number \<open>n\<close> of the negative keywords that occur in it (both zero included), each
  keyword counting once however often it occurs.
\<close>

theorem fallback_score_range:
  assumes "strip (text_field payload) \<noteq> []"
  shows "\<exists>r. analyze_sentiment None U payload = Inr r \<and>
           0 \<le> score r \<and> score r \<le> 1 \<and>
           (let low = lower U (strip (text_field payload));
                p = matches positives low;
                n = matches negatives low
            in (p \<noteq> n \<longrightarrow> 0 \<le> score r \<and> score r \<le> 1) \<and> (p = n \<longrightarrow> score r = 1 / 2))"
proof -
  let ?low = "lower U (strip (text_field payload))"
  have res: "analyze_sentiment None U payload = Inr (fallback ?low)"
    using assms by (simp add: analyze_sentiment_def Let_def)
  have range: "0 \<le> score (fallback ?low) \<and> score (fallback ?low) \<le> 1"
    by (simp add: fallback_matches Let_def)
  have half: "matches positives ?low = matches negatives ?low \<longrightarrow> score (fallback ?low) = 1 / 2"
    by (simp add: fallback_matches Let_def)
  from res range half show ?thesis by (simp add: Let_def)
qed

theorem fallback_score_range_witness:
  "strip (text_field \<lparr>text_field = u '' so SAD ''\<rparr>) \<noteq> [] \<and>
   matches positives (lower identity_table (strip (u '' so SAD ''))) \<noteq>
     matches negatives (lower identity_table (strip (u '' so SAD ''))) \<and>
   (\<exists>r. analyze_sentiment None identity_table \<lparr>text_field = u '' so SAD ''\<rparr> = Inr r \<and>
        0 \<le> score r \<and> score r \<le> 1) \<and>
   strip (text_field \<lparr>text_field = u ''happy but sad''\<rparr>) \<noteq> [] \<and>
   matches positives (lower identity_table (strip (u ''happy but sad''))) =
     matches negatives (lower identity_table (strip (u ''happy but sad''))) \<and>
   (\<exists>r. analyze_sentiment None identity_table \<lparr>text_field = u ''happy but sad''\<rparr> = Inr r \<and>
        score r = 1 / 2)"
  using fallback_score_range [of "\<lparr>text_field = u '' so SAD ''\<rparr>" identity_table]
    fallback_score_range [of "\<lparr>text_field = u ''happy but sad''\<rparr>" identity_table]
  by (auto simp: strip_so_sad lower_so_sad matches_so_sad strip_happy_but_sad
        lower_happy_but_sad matches_happy_but_sad)

text \<open>
  Claim C3. A text that is empty after trimming, so an empty text or one of whitespace
  only, gets \<open>NEUTRAL\<close> with score \<open>0.0\<close>, with an analyzer or without one. The analyzer
  is not consulted: the result is the same for an analyzer that fails on every text.
\<close>

theorem blank_text_is_neutral:
  "strip (text_field payload) = [] \<Longrightarrow>
     analyze_sentiment analyzer U payload = Inr \<lparr>label = NEUTRAL, score = 0\<rparr>"
  by (simp add: analyze_sentiment_def)

theorem blank_text_is_neutral_witness:
  "strip (text_field \<lparr>text_field = [0x20, 0x09, 0x0A, 0xA0]\<rparr>) = [] \<and>
   analyze_sentiment (Some failing_analyzer) identity_table \<lparr>text_field = [0x20, 0x09, 0x0A, 0xA0]\<rparr> =
     Inr \<lparr>label = NEUTRAL, score = 0\<rparr> \<and>
   analyze_sentiment None identity_table \<lparr>text_field = [0x20, 0x09, 0x0A, 0xA0]\<rparr> =
     Inr \<lparr>label = NEUTRAL, score = 0\<rparr>"
proof -
  have h: "strip (text_field \<lparr>text_field = [0x20, 0x09, 0x0A, 0xA0]\<rparr>) = []"
    by (simp add: strip_def isspace_def)
  from blank_text_is_neutral [OF h] h show ?thesis by simp
qed

section \<open>Sentiment classifier: the analyzer path\<close>







section \<open>Vibe note generator\<close>

lemma vibe_note_template:
  "note_field (vibe_note U payload) =
     template (weather_phrase (lower U (or_empty (weather_main payload)))
                              (lower U (or_empty (weather_desc payload))))
              (mood_phrase (lower U (strip (mood payload))))"
proof -
  have "u ''Today'' @ u '', '' = u ''Today, ''"
    by (simp add: u_def)
  then show ?thesis
    by (simp add: vibe_note_def template_def Let_def)
qed

lemma weather_phrase_occurs:
  "weather_phrase wm wd =
     (if occurs (u ''rain'') wm \<or> occurs (u ''drizzle'') wm then rain_phrase
      else if occurs (u ''cloud'') wm \<or> occurs (u ''overcast'') wd then cloud_phrase
      else if occurs (u ''clear'') wm then clear_phrase
      else if occurs (u ''snow'') wm then snow_phrase
      else if occurs (u ''storm'') wm \<or> occurs (u ''thunder'') wm then storm_phrase
      else generic_phrase)"
  by (simp only: weather_phrase_def py_in_occurs)

text \<open>Inputs that reach each weather phrase and each mood phrase.\<close>

lemma reach_weather:
  "weather_phrase (lower U (u ''light rain'')) (lower U []) = rain_phrase"
  "weather_phrase (lower U (u ''Clouds'')) (lower U []) = cloud_phrase"
  "weather_phrase (lower U (u ''Clear'')) (lower U []) = clear_phrase"
  "weather_phrase (lower U (u ''Snow'')) (lower U []) = snow_phrase"
  "weather_phrase (lower U (u ''Thunderstorm'')) (lower U []) = storm_phrase"
  "weather_phrase (lower U []) (lower U []) = generic_phrase"
  by (simp_all add: weather_phrase_def lower_def ascii_lower_def u_def)

lemma reach_mood:
  "mood_phrase (lower U (strip (u ''happy''))) = happy_phrase"
  "mood_phrase (lower U (strip (u ''sad''))) = sad_phrase"
  "mood_phrase (lower U (strip (u ''angry''))) = angry_phrase"
  "mood_phrase (lower U (strip [])) = steady_phrase"
  by (simp_all add: mood_phrase_def any_in_def happy_keys_def sad_keys_def angry_keys_def
        strip_def isspace_def lower_def ascii_lower_def u_def)

lemma light_rain_happy:
  "vibe_note U \<lparr>mood = u ''happy'', weather_main = Some (u ''light rain''), weather_desc = Some []\<rparr> =
     \<lparr>note_field = template rain_phrase happy_phrase\<rparr>"
proof -
  let ?p = "\<lparr>mood = u ''happy'', weather_main = Some (u ''light rain''), weather_desc = Some []\<rparr>"
  have "note_field (vibe_note U ?p) = template rain_phrase happy_phrase"
    by (simp add: vibe_note_template reach_weather reach_mood)
  then show ?thesis
    by (cases "vibe_note U ?p") simp
qed

lemma light_rain_happy_spelled:
  "template rain_phrase happy_phrase =
     u ''Today, the rhythm of the rain sets a calm tempo; your energy feels bright and contagious.''"
  by (simp add: template_def rain_phrase_def happy_phrase_def u_def)

text \<open>
  Claim C4. For every mood, weather main and weather description, an absent one
  counting as the empty string, the note is \<open>Today, \<close> then the weather phrase, then
  \<open>; \<close>, then the mood phrase, then a full stop. The weather phrase is the first that
  the lowercased inputs select in this order: rain or drizzle in the weather main; cloud
  in the weather main or overcast in the description; clear; snow; storm or thunder in
  the weather main; else the generic phrase. The mood \<open>happy\<close> with the weather main
  \<open>light rain\<close> and an empty description gives the rain phrase and the happy phrase in
  that template.
\<close>

theorem vibe_note_priority:
  "note_field (vibe_note U payload) =
     u ''Today, '' @
     (let wm = lower U (or_empty (weather_main payload));
          wd = lower U (or_empty (weather_desc payload))
      in if occurs (u ''rain'') wm \<or> occurs (u ''drizzle'') wm then rain_phrase
         else if occurs (u ''cloud'') wm \<or> occurs (u ''overcast'') wd then cloud_phrase
         else if occurs (u ''clear'') wm then clear_phrase
         else if occurs (u ''snow'') wm then snow_phrase
         else if occurs (u ''storm'') wm \<or> occurs (u ''thunder'') wm then storm_phrase
         else generic_phrase) @
     u ''; '' @ mood_phrase (lower U (strip (mood payload))) @ u ''.'' \<and>
   vibe_note U \<lparr>mood = u ''happy'', weather_main = Some (u ''light rain''), weather_desc = Some []\<rparr> =
     \<lparr>note_field = u ''Today, '' @ rain_phrase @ u ''; '' @ happy_phrase @ u ''.''\<rparr> \<and>
   u ''Today, '' @ rain_phrase @ u ''; '' @ happy_phrase @ u ''.'' =
     u ''Today, the rhythm of the rain sets a calm tempo; your energy feels bright and contagious.''"
proof (intro conjI)
  show "note_field (vibe_note U payload) =
     u ''Today, '' @
     (let wm = lower U (or_empty (weather_main payload));
          wd = lower U (or_empty (weather_desc payload))
      in if occurs (u ''rain'') wm \<or> occurs (u ''drizzle'') wm then rain_phrase
         else if occurs (u ''cloud'') wm \<or> occurs (u ''overcast'') wd then cloud_phrase
         else if occurs (u ''clear'') wm then clear_phrase
         else if occurs (u ''snow'') wm then snow_phrase
         else if occurs (u ''storm'') wm \<or> occurs (u ''thunder'') wm then storm_phrase
         else generic_phrase) @
     u ''; '' @ mood_phrase (lower U (strip (mood payload))) @ u ''.''"
    unfolding vibe_note_template template_def Let_def
    by (simp only: weather_phrase_occurs)
next
  show "vibe_note U \<lparr>mood = u ''happy'', weather_main = Some (u ''light rain''),
          weather_desc = Some []\<rparr> =
     \<lparr>note_field = u ''Today, '' @ rain_phrase @ u ''; '' @ happy_phrase @ u ''.''\<rparr>"
    using light_rain_happy [of U] by (simp only: template_def)
next
  show "u ''Today, '' @ rain_phrase @ u ''; '' @ happy_phrase @ u ''.'' =
     u ''Today, the rhythm of the rain sets a calm tempo; your energy feels bright and contagious.''"
    using light_rain_happy_spelled by (simp only: template_def)
qed

lemma weather_phrase_listed: "weather_phrase wm wd \<in> set weather_phrases"
  by (simp add: weather_phrase_def weather_phrases_def)

lemma mood_phrase_listed: "mood_phrase m \<in> set mood_phrases"
  by (simp add: mood_phrase_def mood_phrases_def)

lemma template_listed:
  "w \<in> set weather_phrases \<Longrightarrow> m \<in> set mood_phrases \<Longrightarrow> template w m \<in> set sentences"
  by (auto simp: sentences_def)

lemma note_listed: "note_field (vibe_note U payload) \<in> set sentences"
  by (simp only: vibe_note_template template_listed weather_phrase_listed mood_phrase_listed)

lemma weather_reached:
  assumes "w \<in> set weather_phrases"
  shows "\<exists>wm. weather_phrase (lower U (or_empty wm)) (lower U (or_empty None)) = w"
proof -
  from assms consider "w = rain_phrase" | "w = cloud_phrase" | "w = clear_phrase"
    | "w = snow_phrase" | "w = storm_phrase" | "w = generic_phrase"
    by (auto simp: weather_phrases_def)
  then show ?thesis
  proof cases
    case 1
    then show ?thesis using reach_weather(1) [of U] by (intro exI [of _ "Some (u ''light rain'')"]) simp
  next
    case 2
    then show ?thesis using reach_weather(2) [of U] by (intro exI [of _ "Some (u ''Clouds'')"]) simp
  next
    case 3
    then show ?thesis using reach_weather(3) [of U] by (intro exI [of _ "Some (u ''Clear'')"]) simp
  next
    case 4
    then show ?thesis using reach_weather(4) [of U] by (intro exI [of _ "Some (u ''Snow'')"]) simp
  next
    case 5
    then show ?thesis using reach_weather(5) [of U] by (intro exI [of _ "Some (u ''Thunderstorm'')"]) simp
  next
    case 6
    then show ?thesis using reach_weather(6) [of U] by (intro exI [of _ None]) simp
  qed
qed

lemma mood_reached:
  assumes "m \<in> set mood_phrases"
  shows "\<exists>ms. mood_phrase (lower U (strip ms)) = m"
proof -
  from assms consider "m = happy_phrase" | "m = sad_phrase" | "m = angry_phrase"
    | "m = steady_phrase"
    by (auto simp: mood_phrases_def)
  then show ?thesis
  proof cases
    case 1
    then show ?thesis using reach_mood(1) [of U] by blast
  next
    case 2
    then show ?thesis using reach_mood(2) [of U] by blast
  next
    case 3
    then show ?thesis using reach_mood(3) [of U] by blast
  next
    case 4
    then show ?thesis using reach_mood(4) [of U] by blast
  qed
qed

lemma sentence_reached:
  assumes "s \<in> set sentences"
  shows "\<exists>payload. note_field (vibe_note U payload) = s"
proof -
  from assms obtain w m where w: "w \<in> set weather_phrases" and m: "m \<in> set mood_phrases"
    and s: "s = template w m"
    by (auto simp: sentences_def)
  from weather_reached [OF w, of U] obtain wm
    where wm: "weather_phrase (lower U (or_empty wm)) (lower U (or_empty None)) = w" ..
  from mood_reached [OF m, of U] obtain ms
    where ms: "mood_phrase (lower U (strip ms)) = m" ..
  have "note_field (vibe_note U \<lparr>mood = ms, weather_main = wm, weather_desc = None\<rparr>) = s"
    using wm ms s by (simp add: vibe_note_template)
  then show ?thesis ..
qed

lemma distinct_sentences: "distinct sentences"
  by (simp add: sentences_def weather_phrases_def mood_phrases_def template_def
        rain_phrase_def cloud_phrase_def clear_phrase_def snow_phrase_def storm_phrase_def
        generic_phrase_def happy_phrase_def sad_phrase_def angry_phrase_def steady_phrase_def u_def)

lemma length_sentences: "length sentences = 24"
  by (simp add: sentences_def weather_phrases_def mood_phrases_def)

lemma startswith_append: "startswith (w @ rest) w"
  by (simp add: startswith_iff)

lemma endswith_append: "endswith (rest @ w) w"
  by (simp add: endswith_def startswith_iff)

text \<open>
  Claim C9. For every input the note is one of exactly 24 fixed sentences, the template
  applied to one of six weather phrases and one of four mood phrases: every note is in
  the list, the list has 24 different entries, and each of them is the note of some
  input. Every note starts with \<open>Today, \<close>, ends with a full stop and is not empty.
\<close>

theorem vibe_note_range:
  "note_field (vibe_note U payload) \<in> set sentences \<and>
   range (\<lambda>p. note_field (vibe_note U p)) = set sentences \<and>
   sentences = concat (map (\<lambda>w. map (template w) mood_phrases) weather_phrases) \<and>
   length weather_phrases = 6 \<and> length mood_phrases = 4 \<and>
   card (range (\<lambda>p. note_field (vibe_note U p))) = 24 \<and>
   finite (range (\<lambda>p. note_field (vibe_note U p))) \<and>
   startswith (note_field (vibe_note U payload)) (u ''Today, '') \<and>
   endswith (note_field (vibe_note U payload)) (u ''.'') \<and>
   note_field (vibe_note U payload) \<noteq> []"
proof -
  have rng: "range (\<lambda>p. note_field (vibe_note U p)) = set sentences"
  proof
    show "range (\<lambda>p. note_field (vibe_note U p)) \<subseteq> set sentences"
      using note_listed by blast
  next
    show "set sentences \<subseteq> range (\<lambda>p. note_field (vibe_note U p))"
    proof
      fix s
      assume "s \<in> set sentences"
      then obtain p where "note_field (vibe_note U p) = s"
        using sentence_reached by blast
      then show "s \<in> range (\<lambda>p. note_field (vibe_note U p))" by blast
    qed
  qed
  have crd: "card (set sentences) = 24"
    using distinct_card [OF distinct_sentences] by (simp add: length_sentences)
  have st: "startswith (note_field (vibe_note U payload)) (u ''Today, '')"
    by (simp only: vibe_note_template template_def startswith_append)
  have "note_field (vibe_note U payload) =
          (u ''Today, '' @
           weather_phrase (lower U (or_empty (weather_main payload)))
             (lower U (or_empty (weather_desc payload))) @
           u ''; '' @ mood_phrase (lower U (strip (mood payload)))) @ u ''.''"
    by (simp add: vibe_note_template template_def)
  then have en: "endswith (note_field (vibe_note U payload)) (u ''.'')"
    by (simp only: endswith_append)
  have ne: "note_field (vibe_note U payload) \<noteq> []"
    by (simp add: vibe_note_template template_def u_def)
  show ?thesis
    using note_listed rng crd st en ne
    by (simp add: sentences_def weather_phrases_def mood_phrases_def)
qed

section \<open>Weather adapter\<close>

lemma falsy_key_sends_nothing:
  "\<not> truthy api_key \<Longrightarrow> \<not> truthy (env (u ''OPENWEATHER_API_KEY'')) \<Longrightarrow>
     get_weather env net city api_key =
       (Inl (Http (HTTPException 500
          (u ''OPENWEATHER_API_KEY not set on server; provide ?api_key=...''))), [])"
  by (cases "env (u ''OPENWEATHER_API_KEY'')") (simp_all add: get_weather_def)

text \<open>With a key, from the parameter or else from the environment, one request is sent.\<close>

lemma key_one_request:
  "truthy api_key \<or> truthy (env (u ''OPENWEATHER_API_KEY'')) \<Longrightarrow>
     length (snd (get_weather env net city api_key)) = 1"
  by (cases api_key; cases "env (u ''OPENWEATHER_API_KEY'')")
     (auto simp: get_weather_def Let_def)

text \<open>
  Claim C6. For every city, when no API key is given as a parameter and none is in the
  environment, the adapter raises the HTTP exception with status 500 that reports the
  missing key, and sends no request.
\<close>

theorem no_key_no_request:
  "api_key = None \<Longrightarrow> env (u ''OPENWEATHER_API_KEY'') = None \<Longrightarrow>
     get_weather env net city api_key =
       (Inl (Http (HTTPException 500
          (u ''OPENWEATHER_API_KEY not set on server; provide ?api_key=...''))), [])"
  by (simp add: get_weather_def)

theorem no_key_no_request_witness:
  "(None :: ustr option) = None \<and> no_variables (u ''OPENWEATHER_API_KEY'') = None \<and>
   get_weather no_variables offline (u ''Paris'') None =
     (Inl (Http (HTTPException 500
        (u ''OPENWEATHER_API_KEY not set on server; provide ?api_key=...''))), [])"
proof -
  have h: "no_variables (u ''OPENWEATHER_API_KEY'') = None"
    by (simp add: no_variables_def)
  from no_key_no_request [of None no_variables offline "u ''Paris''"] h show ?thesis by simp
qed

section \<open>Diagnostics reporter\<close>

lemma env_check_fields:
  "backend (env_check env r) = backend r"
  "database (env_check env r) = database r"
  "database_url (env_check env r) =
     Some (if truthy (env (u ''DATABASE_URL'')) then check_mark @ u '' Set''
           else cross_mark @ u '' Not Set'')"
  "database_name (env_check env r) =
     Some (if truthy (env (u ''DATABASE_NAME'')) then check_mark @ u '' Set''
           else cross_mark @ u '' Not Set'')"
  by (simp_all add: env_check_def)

text \<open>Every report that the operation returns has passed the check of the environment.\<close>

lemma returned_report_checked:
  "test_database imp env = Inr r \<Longrightarrow> \<exists>r0. r = env_check env r0"
  by (auto simp: test_database_def split: prod.splits option.splits if_splits sum.splits)

lemma ordinary_text: "ordinary e \<Longrightarrow> isinstance e Exception \<and> str_of e = Inr (text_of e)"
  by (cases "str_of e") (simp_all add: ordinary_def text_of_def)

lemma list_probe_ordinary:
  assumes "\<forall>e \<in> set (case list_collection_names db of Inl e \<Rightarrow> [e] | Inr cs \<Rightarrow> []). ordinary e"
  shows "list_probe db r =
     (None,
      case list_collection_names db of
        Inl e \<Rightarrow> r\<lparr>database := warning_mark @ u ''  Connected but Error: '' @ take 50 (text_of e)\<rparr>
      | Inr cs \<Rightarrow> r\<lparr>collections := take 10 cs,
                    database := check_mark @ u '' Connected & Working''\<rparr>)"
proof (cases "list_collection_names db")
  case (Inl e)
  with assms have "ordinary e" by simp
  from ordinary_text [OF this] Inl show ?thesis
    by (simp add: list_probe_def)
next
  case (Inr cs)
  then show ?thesis by (simp add: list_probe_def)
qed

lemma test_database_returns:
  assumes "\<forall>e \<in> set (raised_by_probes imp). ordinary e"
  shows "\<exists>r. test_database imp env = Inr (env_check env r) \<and>
       backend r = check_mark @ u '' Running'' \<and>
       database r =
         (case imp of
            Inl e \<Rightarrow>
              if isinstance e ImportError
              then cross_mark @ u '' Database module not found (run enable-database first)''
              else cross_mark @ u '' Error: '' @ take 50 (text_of e)
          | Inr None \<Rightarrow> warning_mark @ u ''  Available but not initialized''
          | Inr (Some db) \<Rightarrow>
              (case name_attr db of
                 Inl e \<Rightarrow>
                   if isinstance e ImportError
                   then cross_mark @ u '' Database module not found (run enable-database first)''
                   else cross_mark @ u '' Error: '' @ take 50 (text_of e)
               | Inr nm \<Rightarrow>
                   (case list_collection_names db of
                      Inl e \<Rightarrow> warning_mark @ u ''  Connected but Error: '' @ take 50 (text_of e)
                    | Inr cs \<Rightarrow> check_mark @ u '' Connected & Working'')))"
proof (cases imp)
  case (Inl e)
  with assms have "ordinary e" by simp
  from ordinary_text [OF this] Inl show ?thesis
    by (force simp: test_database_def db_probe_def response0_def)
next
  case (Inr h)
  show ?thesis
  proof (cases h)
    case None
    with Inr show ?thesis
      by (force simp: test_database_def db_probe_def response0_def)
  next
    case (Some db)
    show ?thesis
    proof (cases "name_attr db")
      case (Inl e)
      with assms Inr Some have "ordinary e" by simp
      from ordinary_text [OF this] Inl Inr Some show ?thesis
        by (force simp: test_database_def db_probe_def response0_def Let_def)
    next
      case nm: (Inr nm)
      with assms Inr Some
      have ls: "\<forall>e \<in> set (case list_collection_names db of Inl e \<Rightarrow> [e] | Inr cs \<Rightarrow> []). ordinary e"
        by simp
      show ?thesis
      proof (cases "list_collection_names db")
        case (Inl e)
        with Inr Some nm show ?thesis
          by (force simp: test_database_def db_probe_def list_probe_ordinary [OF ls]
                response0_def Let_def)
      next
        case cs: (Inr cs)
        with Inr Some nm show ?thesis
          by (force simp: test_database_def db_probe_def list_probe_ordinary [OF ls]
                response0_def Let_def)
      qed
    qed
  qed
qed

text \<open>Examples: the listing of the collections fails; the module is missing.\<close>

lemma broken_listing_report:
  "test_database broken_listing no_variables =
     Inr \<lparr>backend = check_mark @ u '' Running'',
          database = warning_mark @ u ''  Connected but Error: server selection timed out'',
          database_url = Some (cross_mark @ u '' Not Set''),
          database_name = Some (cross_mark @ u '' Not Set''),
          connection_status = u ''Connected'',
          collections = []\<rparr>"
  by (simp add: test_database_def db_probe_def list_probe_def env_check_def response0_def
        broken_listing_def no_variables_def u_def)

lemma broken_listing_raised:
  "raised_by_probes broken_listing = [Exc Exception (Inr (u ''server selection timed out''))]"
  "ordinary (Exc Exception (Inr (u ''server selection timed out'')))"
  by (simp_all add: broken_listing_def ordinary_def)

lemma missing_module_report:
  "test_database missing_module filled_url =
     Inr \<lparr>backend = check_mark @ u '' Running'',
          database = cross_mark @ u '' Database module not found (run enable-database first)'',
          database_url = Some (check_mark @ u '' Set''),
          database_name = Some (cross_mark @ u '' Not Set''),
          connection_status = u ''Not Connected'',
          collections = []\<rparr>"
  by (simp add: test_database_def db_probe_def env_check_def response0_def
        missing_module_def filled_url_def u_def)

lemma missing_module_raised:
  "raised_by_probes missing_module = [Exc ImportError (Inr (u ''No module named database''))]"
  "ordinary (Exc ImportError (Inr (u ''No module named database'')))"
  by (simp_all add: missing_module_def ordinary_def)

text \<open>
  Claim C7, as stated: the diagnostics operation never raises, whatever exception a probe
  raises. The handlers are \<^verbatim>\<open>except ImportError\<close> and \<^verbatim>\<open>except Exception\<close>, and the
  second one formats \<^verbatim>\<open>str(e)\<close>. An exception that is not an \<^verbatim>\<open>Exception\<close>, such as
  the \<^verbatim>\<open>SystemExit\<close> of a database module that exits while it is imported, passes both
  handlers; and when \<^verbatim>\<open>str(e)\<close> raises, its exception leaves the handler. In both
  cases the operation raises and returns no report.
\<close>

theorem uncaught_exception_counterexample:
  "test_database exiting_module no_variables = Inl (Exc BaseException (Inr (u ''1''))) \<and>
   test_database unprintable_failure no_variables =
     Inl (Exc Exception (Inr (u ''__str__ returned non-string'')))"
  by (simp add: test_database_def db_probe_def exiting_module_def unprintable_failure_def)

text \<open>
  Claim C7, amended. The diagnostics operation does not raise when every exception that
  a probe raises is an \<^verbatim>\<open>Exception\<close> whose \<^verbatim>\<open>str\<close> returns a text. Whatever the
  probes give then, the import of the database module, the handle, the listing of the
  collections and the environment, the operation returns a report: the backend field
  says that the backend runs, and the database field is the status line of the first
  thing that failed, with the first 50 characters of the exception text where there is
  one, or of the success.
\<close>

theorem diagnostics_catches_exceptions:
  assumes "\<forall>e \<in> set (raised_by_probes imp). ordinary e"
  shows "\<exists>r. test_database imp env = Inr r \<and>
       backend r = check_mark @ u '' Running'' \<and>
       database r =
         (case imp of
            Inl e \<Rightarrow>
              if isinstance e ImportError
              then cross_mark @ u '' Database module not found (run enable-database first)''
              else cross_mark @ u '' Error: '' @ take 50 (text_of e)
          | Inr None \<Rightarrow> warning_mark @ u ''  Available but not initialized''
          | Inr (Some db) \<Rightarrow>
              (case name_attr db of
                 Inl e \<Rightarrow>
                   if isinstance e ImportError
                   then cross_mark @ u '' Database module not found (run enable-database first)''
                   else cross_mark @ u '' Error: '' @ take 50 (text_of e)
               | Inr nm \<Rightarrow>
                   (case list_collection_names db of
                      Inl e \<Rightarrow> warning_mark @ u ''  Connected but Error: '' @ take 50 (text_of e)
                    | Inr cs \<Rightarrow> check_mark @ u '' Connected & Working'')))"
proof -
  from test_database_returns [OF assms, of env] obtain r where
    r: "test_database imp env = Inr (env_check env r)"
    and b: "backend r = check_mark @ u '' Running''"
    and d: "database r =
         (case imp of
            Inl e \<Rightarrow>
              if isinstance e ImportError
              then cross_mark @ u '' Database module not found (run enable-database first)''
              else cross_mark @ u '' Error: '' @ take 50 (text_of e)
          | Inr None \<Rightarrow> warning_mark @ u ''  Available but not initialized''
          | Inr (Some db) \<Rightarrow>
              (case name_attr db of
                 Inl e \<Rightarrow>
                   if isinstance e ImportError
                   then cross_mark @ u '' Database module not found (run enable-database first)''
                   else cross_mark @ u '' Error: '' @ take 50 (text_of e)
               | Inr nm \<Rightarrow>
                   (case list_collection_names db of
                      Inl e \<Rightarrow> warning_mark @ u ''  Connected but Error: '' @ take 50 (text_of e)
                    | Inr cs \<Rightarrow> check_mark @ u '' Connected & Working'')))"
    by blast
  show ?thesis
    by (rule exI [of _ "env_check env r"]) (simp only: r b d env_check_fields simp_thms)
qed

theorem diagnostics_catches_exceptions_witness:
  "raised_by_probes broken_listing = [Exc Exception (Inr (u ''server selection timed out''))] \<and>
   ordinary (Exc Exception (Inr (u ''server selection timed out''))) \<and>
   (\<exists>r. test_database broken_listing no_variables = Inr r \<and>
        backend r = check_mark @ u '' Running'' \<and>
        database r = warning_mark @ u ''  Connected but Error: server selection timed out'')"
proof -
  have h: "\<forall>e \<in> set (raised_by_probes broken_listing). ordinary e"
    by (simp add: broken_listing_raised)
  from diagnostics_catches_exceptions [OF h, of no_variables] show ?thesis
    by (simp add: broken_listing_raised broken_listing_report)
qed

text \<open>
  Claim C10, as stated: the final \<open>database_url\<close> and \<open>database_name\<close> fields depend
  only on whether the two environment variables are set. They do not: a variable that is
  set to the empty string is reported as not set. In both environments below
  \<open>DATABASE_URL\<close> is set, to the empty string in one and to an address in the other,
  everything else is the same, and the field differs.
\<close>

theorem set_to_empty_counterexample:
  "blank_url (u ''DATABASE_URL'') \<noteq> None \<and> filled_url (u ''DATABASE_URL'') \<noteq> None \<and>
   blank_url (u ''DATABASE_NAME'') = None \<and> filled_url (u ''DATABASE_NAME'') = None \<and>
   returned database_url (test_database missing_module blank_url) =
     Some (Some (cross_mark @ u '' Not Set'')) \<and>
   returned database_url (test_database missing_module filled_url) =
     Some (Some (check_mark @ u '' Set'')) \<and>
   cross_mark @ u '' Not Set'' \<noteq> check_mark @ u '' Set''"
  by (simp add: blank_url_def filled_url_def missing_module_def test_database_def db_probe_def
        env_check_def u_def cross_mark_def check_mark_def)

text \<open>
  Claim C10, amended. The final \<open>database_url\<close> and \<open>database_name\<close> fields depend only
  on whether the two environment variables are set to a value that is not empty: in
  every report that the operation returns, what the database probe assigned to these
  fields is overwritten, whatever the probe gave. And a report is returned whenever
  every exception that a probe raises is an \<^verbatim>\<open>Exception\<close> whose \<^verbatim>\<open>str\<close> returns a
  text.
\<close>

theorem url_and_name_from_environment:
  "(test_database imp env = Inr r \<longrightarrow>
      database_url r =
        Some (if truthy (env (u ''DATABASE_URL'')) then check_mark @ u '' Set''
              else cross_mark @ u '' Not Set'') \<and>
      database_name r =
        Some (if truthy (env (u ''DATABASE_NAME'')) then check_mark @ u '' Set''
              else cross_mark @ u '' Not Set'')) \<and>
   ((\<forall>e \<in> set (raised_by_probes imp). ordinary e) \<longrightarrow>
      (\<exists>r'. test_database imp env = Inr r'))"
proof (intro conjI impI)
  assume "test_database imp env = Inr r"
  from returned_report_checked [OF this] obtain r0 where r0: "r = env_check env r0"
    by blast
  show "database_url r =
        Some (if truthy (env (u ''DATABASE_URL'')) then check_mark @ u '' Set''
              else cross_mark @ u '' Not Set'')"
    by (simp only: r0 env_check_fields)
  show "database_name r =
        Some (if truthy (env (u ''DATABASE_NAME'')) then check_mark @ u '' Set''
              else cross_mark @ u '' Not Set'')"
    by (simp only: r0 env_check_fields)
next
  assume "\<forall>e \<in> set (raised_by_probes imp). ordinary e"
  from test_database_returns [OF this, of env] show "\<exists>r'. test_database imp env = Inr r'"
    by blast
qed

theorem url_and_name_from_environment_witness:
  "test_database missing_module filled_url =
     Inr \<lparr>backend = check_mark @ u '' Running'',
          database = cross_mark @ u '' Database module not found (run enable-database first)'',
          database_url = Some (check_mark @ u '' Set''),
          database_name = Some (cross_mark @ u '' Not Set''),
          connection_status = u ''Not Connected'',
          collections = []\<rparr> \<and>
   truthy (filled_url (u ''DATABASE_URL'')) \<and> \<not> truthy (filled_url (u ''DATABASE_NAME'')) \<and>
   raised_by_probes missing_module = [Exc ImportError (Inr (u ''No module named database''))] \<and>
   ordinary (Exc ImportError (Inr (u ''No module named database''))) \<and>
   (\<exists>r'. test_database missing_module filled_url = Inr r')"
proof -
  have h: "test_database missing_module filled_url =
     Inr \<lparr>backend = check_mark @ u '' Running'',
          database = cross_mark @ u '' Database module not found (run enable-database first)'',
          database_url = Some (check_mark @ u '' Set''),
          database_name = Some (cross_mark @ u '' Not Set''),
          connection_status = u ''Not Connected'',
          collections = []\<rparr>"
    by (rule missing_module_report)
  have t: "truthy (filled_url (u ''DATABASE_URL''))" "\<not> truthy (filled_url (u ''DATABASE_NAME''))"
    by (simp_all add: filled_url_def u_def)
  have e: "\<forall>e \<in> set (raised_by_probes missing_module). ordinary e"
    by (simp add: missing_module_raised)
  from url_and_name_from_environment
          [of missing_module filled_url
              "\<lparr>backend = check_mark @ u '' Running'',
                database = cross_mark @ u '' Database module not found (run enable-database first)'',
                database_url = Some (check_mark @ u '' Set''),
                database_name = Some (cross_mark @ u '' Not Set''),
                connection_status = u ''Not Connected'',
                collections = []\<rparr>"] h t e
  show ?thesis
    by (simp add: missing_module_raised)
qed
end
